theory Spec2Isabelle
  imports Main "HOL-Library.Word"
begin

unbundle bit_operations_syntax

section \<open>Data model of attrib/gatttool.c\<close>

text \<open>
  The tool is a set of callbacks driven by GLib's main loop. Every callback is embedded
  as a function from its inputs (the option globals, the status and PDU handed over by
  GAttrib) to the list of externally visible actions it performs, in program order:
  what it prints, which GATT request it hands to the attribute layer, and whether it
  asks the main loop to quit.
\<close>

type_synonym u8 = "8 word"
type_synonym u16 = "16 word"

text \<open>
  The option globals \<open>opt_*\<close> (lines 51-64). The C type \<open>int\<close> is kept as
  \<open>int\<close>; the only arithmetic done on these values is the conversion to
  \<open>uint16_t\<close> at the calls into the GATT layer, written \<open>word_of_int\<close>
  (reduction modulo \<open>2 ^ 16\<close>). A \<open>gchar *\<close> is \<open>None\<close> when \<open>NULL\<close>.
\<close>

record options =
  opt_src :: "string option"
  opt_dst :: "string option"
  opt_value :: "string option"
  opt_start :: int
  opt_end :: int
  opt_handle :: int
  opt_mtu :: int
  opt_primary :: bool
  opt_characteristics :: bool
  opt_char_read :: bool
  opt_listen :: bool
  opt_char_desc :: bool
  opt_le :: bool
  opt_char_write :: bool

text \<open>The initial values of the globals, before option parsing.\<close>

definition default_options :: options where
  "default_options =
     \<lparr> opt_src = None, opt_dst = None, opt_value = None,
       opt_start = 0x0001, opt_end = 0xffff, opt_handle = - 1, opt_mtu = 0,
       opt_primary = False, opt_characteristics = False, opt_char_read = False,
       opt_listen = False, opt_char_desc = False, opt_le = False,
       opt_char_write = False \<rparr>"

text \<open>\<open>struct characteristic_data\<close> (lines 67-71), without the \<open>attrib\<close> pointer.\<close>

record characteristic_data =
  cd_start :: u16
  cd_end :: u16

text \<open>
  \<open>struct att_data_list\<close> (att.h): \<open>num\<close> entries of \<open>len\<close> bytes each.
  \<open>num\<close> is the length of \<open>entries\<close>.
\<close>

record att_data_list =
  len :: u16
  entries :: "u8 list list"

datatype uuid = UUID16 u16 | UUID128 "u8 list"

text \<open>
  The actions of the callbacks. \<open>G_printerr_ecode m s\<close> is
  \<open>g_printerr("m: %s\n", att_ecode2str(s))\<close>; the \<open>G_print_*\<close> constructors carry the
  values that the corresponding \<open>g_print\<close> calls format.
\<close>

datatype action =
    G_printerr string
  | G_printerr_ecode string u8
  | G_print_primary u16 u16 uuid
  | G_print_char u16 u8 u16 uuid
  | G_print_desc u16 uuid
  | G_print_read_value "u8 list"
  | G_print_notification u16
  | G_print_indication u16
  | G_print_invalid_opcode
  | G_print_help
  | G_print_bytes "u8 list"
  | Att_data_list_free
  | G_free_char_data
  | G_free_value
  | G_attrib_register u8
  | G_attrib_send u8 "u8 list"
  | Gatt_discover_primary u16 u16
  | Gatt_discover_char u16 u16 characteristic_data
  | Gatt_find_info u16 u16
  | Gatt_read_char u16
  | Gatt_write_cmd u16 "u8 list"
  | G_main_loop_quit

text \<open>The actions that hand a request or a PDU to the attribute layer.\<close>

fun is_request :: "action \<Rightarrow> bool" where
  "is_request (G_attrib_send _ _) = True"
| "is_request (Gatt_discover_primary _ _) = True"
| "is_request (Gatt_discover_char _ _ _) = True"
| "is_request (Gatt_find_info _ _) = True"
| "is_request (Gatt_read_char _) = True"
| "is_request (Gatt_write_cmd _ _) = True"
| "is_request _ = False"

definition requests :: "action list \<Rightarrow> action list" where
  "requests acts = filter is_request acts"

text \<open>The actions that report a failure on standard error.\<close>

fun is_failure_report :: "action \<Rightarrow> bool" where
  "is_failure_report (G_printerr _) = True"
| "is_failure_report (G_printerr_ecode _ _) = True"
| "is_failure_report _ = False"

definition failure_reports :: "action list \<Rightarrow> action list" where
  "failure_reports acts = filter is_failure_report acts"

subsection \<open>Constants and helpers of att.h\<close>

text \<open>
  att.h is not among the sources; the constants below are the protocol's opcode and
  error code values that it declares.
\<close>

definition ATT_ECODE_ATTR_NOT_FOUND :: u8 where
  "ATT_ECODE_ATTR_NOT_FOUND = 0x0A"

definition ATT_OP_HANDLE_NOTIFY :: u8 where
  "ATT_OP_HANDLE_NOTIFY = 0x1B"

definition ATT_OP_HANDLE_IND :: u8 where
  "ATT_OP_HANDLE_IND = 0x1D"

text \<open>
  \<open>att_get_u16(p)\<close>: the little-endian 16-bit value at \<open>p[0], p[1]\<close>. The argument is
  the byte sequence starting at the pointer.
\<close>

definition att_get_u16 :: "u8 list \<Rightarrow> u16" where
  "att_get_u16 p = (ucast (p ! 0) :: u16) OR push_bit 8 (ucast (p ! 1) :: u16)"

definition sdp_uuid16_create :: "u16 \<Rightarrow> uuid" where
  "sdp_uuid16_create v = UUID16 v"

definition sdp_uuid128_create :: "u8 list \<Rightarrow> uuid" where
  "sdp_uuid128_create p = UUID128 (take 16 p)"

section \<open>Primary service discovery\<close>

text \<open>The label \<open>done\<close> shared by the response callbacks (lines 185-187).\<close>

definition loop_done :: "options \<Rightarrow> action list" where
  "loop_done opts = (if opt_listen opts = False then [G_main_loop_quit] else [])"

text \<open>One iteration of the loop of \<open>primary_cb\<close> (lines 149-172).\<close>

definition primary_entry :: "u16 \<Rightarrow> u8 list \<Rightarrow> action" where
  "primary_entry l v =
     (let length' = (ucast (l - 4) :: u8);
          start = att_get_u16 v;
          end' = att_get_u16 (drop 2 v)
      in G_print_primary start end'
           (if length' = 2 then sdp_uuid16_create (att_get_u16 (drop 4 v))
            else sdp_uuid128_create (drop 4 v)))"

text \<open>
  The loop itself: the printed lines, and the value of \<open>end\<close> after the loop, which
  is the one set by the last iteration, or the initial value when the list is empty.
\<close>

fun primary_loop :: "u16 \<Rightarrow> u8 list list \<Rightarrow> u16 \<Rightarrow> action list \<times> u16" where
  "primary_loop l [] e = ([], e)"
| "primary_loop l (v # vs) e =
     (let r = primary_loop l vs (att_get_u16 (drop 2 v))
      in (primary_entry l v # fst r, snd r))"

text \<open>
  \<open>primary_cb\<close> (lines 128-188). \<open>dec\<close> is \<open>dec_read_by_grp_resp\<close> of att.c, which
  is not among the sources: it returns the decoded list, or \<open>None\<close> for \<open>NULL\<close>.
  The next request is \<open>gatt_discover_primary(attrib, end + 1, opt_end, ...)\<close>: the sum
  is computed in \<open>int\<close> and converted to the \<open>uint16_t\<close> parameter.
\<close>

definition primary_cb ::
  "(u8 list \<Rightarrow> att_data_list option) \<Rightarrow> options \<Rightarrow> u8 \<Rightarrow> u8 list \<Rightarrow> action list" where
  "primary_cb dec opts status pdu =
     (if status = ATT_ECODE_ATTR_NOT_FOUND then loop_done opts
      else if status \<noteq> 0 then
        G_printerr_ecode ''Discover all primary services failed'' status # loop_done opts
      else
        (case dec pdu of
           None \<Rightarrow> loop_done opts
         | Some list \<Rightarrow>
             (let r = primary_loop (len list) (entries list) 0
              in fst r @
                 [Att_data_list_free,
                  Gatt_discover_primary (word_of_int (uint (snd r) + 1))
                    (word_of_int (opt_end opts))])))"

text \<open>\<open>primary\<close> (lines 236-243), the idle callback that starts the discovery.\<close>

definition primary :: "options \<Rightarrow> action list" where
  "primary opts =
     [Gatt_discover_primary (word_of_int (opt_start opts)) (word_of_int (opt_end opts))]"

section \<open>Characteristic discovery\<close>

text \<open>One iteration of the loop of \<open>char_discovered_cb\<close> (lines 266-285).\<close>

definition char_entry :: "u16 \<Rightarrow> u8 list \<Rightarrow> action" where
  "char_entry l v =
     G_print_char (att_get_u16 v) (v ! 2) (att_get_u16 (drop 3 v))
       (if l = 7 then sdp_uuid16_create (att_get_u16 (drop 5 v))
        else sdp_uuid128_create (drop 5 v))"

text \<open>The loop: the printed lines and the final value of \<open>last\<close>.\<close>

fun char_loop :: "u16 \<Rightarrow> u8 list list \<Rightarrow> u16 \<Rightarrow> action list \<times> u16" where
  "char_loop l [] last' = ([], last')"
| "char_loop l (v # vs) last' =
     (let r = char_loop l vs (att_get_u16 v)
      in (char_entry l v # fst r, snd r))"

text \<open>
  \<open>char_discovered_cb\<close> (lines 245-299). \<open>dec\<close> is \<open>dec_read_by_type_resp\<close>.
  When the decoder returns \<open>NULL\<close> the function executes \<open>return\<close> (line 264),
  not \<open>goto done\<close>: it performs no action at all.
\<close>

definition char_discovered_cb ::
  "(u8 list \<Rightarrow> att_data_list option) \<Rightarrow> options \<Rightarrow> characteristic_data \<Rightarrow> u8 \<Rightarrow>
   u8 list \<Rightarrow> action list" where
  "char_discovered_cb dec opts char_data status pdu =
     (if status = ATT_ECODE_ATTR_NOT_FOUND then G_free_char_data # loop_done opts
      else if status \<noteq> 0 then
        G_printerr_ecode ''Discover all characteristics failed'' status #
        G_free_char_data # loop_done opts
      else
        (case dec pdu of
           None \<Rightarrow> []
         | Some list \<Rightarrow>
             (let r = char_loop (len list) (entries list) (cd_start char_data)
              in fst r @
                 [Att_data_list_free,
                  Gatt_discover_char (word_of_int (uint (snd r) + 1)) (cd_end char_data)
                    char_data])))"

text \<open>\<open>characteristics\<close> (lines 301-315).\<close>

definition characteristics :: "options \<Rightarrow> action list" where
  "characteristics opts =
     (let char_data = \<lparr> cd_start = word_of_int (opt_start opts),
                         cd_end = word_of_int (opt_end opts) \<rparr>
      in [Gatt_discover_char (word_of_int (opt_start opts)) (word_of_int (opt_end opts))
            char_data])"

section \<open>Reading and writing a characteristic value\<close>

text \<open>
  \<open>char_read_cb\<close> (lines 317-340). \<open>dec\<close> is \<open>dec_read_resp\<close>: the decoded value,
  or \<open>None\<close> when it returns 0.
\<close>

definition char_read_cb ::
  "(u8 list \<Rightarrow> u8 list option) \<Rightarrow> options \<Rightarrow> u8 \<Rightarrow> u8 list \<Rightarrow> action list" where
  "char_read_cb dec opts status pdu =
     (if status \<noteq> 0 then
        G_printerr_ecode ''Characteristic value/descriptor read failed'' status #
        loop_done opts
      else
        (case dec pdu of
           None \<Rightarrow> G_printerr ''Protocol error'' # loop_done opts
         | Some v \<Rightarrow> G_print_read_value v # loop_done opts))"

text \<open>\<open>characteristics_read\<close> (lines 342-355).\<close>

definition characteristics_read :: "options \<Rightarrow> action list" where
  "characteristics_read opts =
     (if opt_handle opts \<le> 0 then
        [G_printerr ''A valid handle is required'', G_main_loop_quit]
      else [Gatt_read_char (word_of_int (opt_handle opts))])"

text \<open>
  \<open>strtol(tmp, NULL, 16)\<close> in the C locale: leading white space, an optional sign, an
  optional \<open>0x\<close> prefix when a hexadecimal digit follows it, then the longest run of
  hexadecimal digits; 0 when there is none. The buffer \<open>tmp\<close> holds two characters,
  so the clamp to \<open>LONG_MAX\<close> is out of reach and is not modelled.
\<close>

definition isspace :: "char \<Rightarrow> bool" where
  "isspace c = (c = CHR '' '' \<or> (9 \<le> (of_char c :: nat) \<and> (of_char c :: nat) \<le> 13))"

definition hex_digit :: "char \<Rightarrow> nat option" where
  "hex_digit c =
     (let n = (of_char c :: nat)
      in if 48 \<le> n \<and> n \<le> 57 then Some (n - 48)
         else if 97 \<le> n \<and> n \<le> 102 then Some (n - 87)
         else if 65 \<le> n \<and> n \<le> 70 then Some (n - 55)
         else None)"

fun hex_digits :: "nat \<Rightarrow> string \<Rightarrow> nat" where
  "hex_digits acc [] = acc"
| "hex_digits acc (c # cs) =
     (case hex_digit c of None \<Rightarrow> acc | Some d \<Rightarrow> hex_digits (16 * acc + d) cs)"

fun skip_0x :: "string \<Rightarrow> string" where
  "skip_0x (z # x # d # cs) =
     (if z = CHR ''0'' \<and> (x = CHR ''x'' \<or> x = CHR ''X'') \<and> hex_digit d \<noteq> None
      then d # cs else z # x # d # cs)"
| "skip_0x cs = cs"

definition strtol16 :: "string \<Rightarrow> int" where
  "strtol16 s =
     (let s1 = dropWhile isspace s
      in if s1 \<noteq> [] \<and> hd s1 = CHR ''-'' then - int (hex_digits 0 (skip_0x (tl s1)))
         else if s1 \<noteq> [] \<and> hd s1 = CHR ''+'' then int (hex_digits 0 (skip_0x (tl s1)))
         else int (hex_digits 0 (skip_0x s1)))"

text \<open>
  \<open>attr_data_from_string\<close> (lines 357-374): \<open>strlen(str) / 2\<close> bytes, byte \<open>i\<close>
  parsed from the characters \<open>2 i\<close> and \<open>2 i + 1\<close>. The result is the buffer; its
  length is the value the C function returns. \<open>g_try_malloc0(0)\<close> is \<open>NULL\<close>, which
  gives the return value 0, as the empty list does here; an allocation of a positive
  size is taken to succeed.
\<close>

definition attr_data_from_string :: "string \<Rightarrow> u8 list" where
  "attr_data_from_string str =
     map (\<lambda>i. (word_of_int (strtol16 (take 2 (drop (i * 2) str))) :: u8))
       [0 ..< length str div 2]"

text \<open>
  \<open>characteristics_write\<close> (lines 384-413). The request is
  \<open>gatt_write_cmd(attrib, opt_handle, value, len, mainloop_quit, value)\<close>.
\<close>

definition characteristics_write :: "options \<Rightarrow> action list" where
  "characteristics_write opts =
     (if opt_handle opts \<le> 0 then
        [G_printerr ''A valid handle is required'', G_main_loop_quit]
      else
        (case opt_value opts of
           None \<Rightarrow> [G_printerr ''A value is required'', G_main_loop_quit]
         | Some str \<Rightarrow>
             if str = [] then [G_printerr ''A value is required'', G_main_loop_quit]
             else
               (let v = attr_data_from_string str
                in if length v = 0 then [G_printerr ''Invalid value'', G_main_loop_quit]
                   else [Gatt_write_cmd (word_of_int (opt_handle opts)) v])))"

text \<open>\<open>mainloop_quit\<close> (lines 376-382), the destroy notification of the write command.\<close>

definition mainloop_quit :: "action list" where
  "mainloop_quit = [G_free_value, G_main_loop_quit]"

section \<open>Descriptor discovery\<close>

text \<open>One iteration of the loop of \<open>char_desc_cb\<close> (lines 432-449).\<close>

definition desc_entry :: "u8 \<Rightarrow> u8 list \<Rightarrow> action" where
  "desc_entry format v =
     G_print_desc (att_get_u16 v)
       (if format = 0x01 then sdp_uuid16_create (att_get_u16 (drop 2 v))
        else sdp_uuid128_create (drop 2 v))"

text \<open>
  \<open>char_desc_cb\<close> (lines 415-456). \<open>dec\<close> is \<open>dec_find_info_resp\<close>, which returns
  the list and the format byte. Every path of the function reaches the label \<open>done\<close>.
\<close>

definition char_desc_cb ::
  "(u8 list \<Rightarrow> (att_data_list \<times> u8) option) \<Rightarrow> options \<Rightarrow> u8 \<Rightarrow> u8 list \<Rightarrow>
   action list" where
  "char_desc_cb dec opts status pdu =
     (if status \<noteq> 0 then
        G_printerr_ecode ''Discover all characteristic descriptors failed'' status #
        loop_done opts
      else
        (case dec pdu of
           None \<Rightarrow> loop_done opts
         | Some (list, format) \<Rightarrow>
             map (desc_entry format) (entries list) @ [Att_data_list_free] @
             loop_done opts))"

text \<open>\<open>characteristics_desc\<close> (lines 458-465).\<close>

definition characteristics_desc :: "options \<Rightarrow> action list" where
  "characteristics_desc opts =
     [Gatt_find_info (word_of_int (opt_start opts)) (word_of_int (opt_end opts))]"

section \<open>Notifications and indications\<close>

text \<open>
  \<open>events_handler\<close> (lines 190-222). \<open>cnf\<close> is what \<open>enc_confirmation\<close> of att.c
  writes into \<open>opdu\<close>: its length is the returned \<open>olen\<close>, so the empty list stands
  for the return value 0. The bytes printed are \<open>pdu[3] .. pdu[len - 1]\<close>.
\<close>

definition events_handler :: "u8 list \<Rightarrow> u8 list \<Rightarrow> action list" where
  "events_handler cnf pdu =
     (let handle = att_get_u16 (drop 1 pdu)
      in if pdu ! 0 = ATT_OP_HANDLE_NOTIFY then
           [G_print_notification handle, G_print_bytes (drop 3 pdu)]
         else if pdu ! 0 = ATT_OP_HANDLE_IND then
           [G_print_indication handle, G_print_bytes (drop 3 pdu)] @
           (if length cnf > 0 then [G_attrib_send (cnf ! 0) cnf] else [])
         else [G_print_invalid_opcode])"

text \<open>\<open>listen_start\<close> (lines 224-234).\<close>

definition listen_start :: "action list" where
  "listen_start =
     [G_attrib_register ATT_OP_HANDLE_NOTIFY, G_attrib_register ATT_OP_HANDLE_IND]"

text \<open>The confirmations among a list of actions: the PDUs handed to \<open>g_attrib_send\<close>.\<close>

fun is_confirmation :: "action \<Rightarrow> bool" where
  "is_confirmation (G_attrib_send _ _) = True"
| "is_confirmation _ = False"

definition confirmations :: "action list \<Rightarrow> action list" where
  "confirmations acts = filter is_confirmation acts"

section \<open>The program: option dispatch, connection, main loop\<close>

text \<open>The \<open>GSourceFunc\<close> that \<open>main\<close> selects (lines 553-569).\<close>

datatype callback =
    Cb_primary
  | Cb_characteristics
  | Cb_characteristics_read
  | Cb_characteristics_write
  | Cb_characteristics_desc

definition select_callback :: "options \<Rightarrow> callback option" where
  "select_callback opts =
     (if opt_primary opts then Some Cb_primary
      else if opt_characteristics opts then Some Cb_characteristics
      else if opt_char_read opts then Some Cb_characteristics_read
      else if opt_char_write opts then Some Cb_characteristics_write
      else if opt_char_desc opts then Some Cb_characteristics_desc
      else None)"

fun run_callback :: "callback \<Rightarrow> options \<Rightarrow> action list" where
  "run_callback Cb_primary opts = primary opts"
| "run_callback Cb_characteristics opts = characteristics opts"
| "run_callback Cb_characteristics_read opts = characteristics_read opts"
| "run_callback Cb_characteristics_write opts = characteristics_write opts"
| "run_callback Cb_characteristics_desc opts = characteristics_desc opts"

text \<open>
  \<open>connect_cb\<close> (lines 73-77), the callback given to \<open>bt_io_connect\<close>: \<open>err\<close> is
  the message of the error, \<open>None\<close> when the connection is established. It prints
  the message and does nothing else.
\<close>

definition connect_cb :: "string option \<Rightarrow> action list" where
  "connect_cb err = (case err of None \<Rightarrow> [] | Some m \<Rightarrow> [G_printerr m])"

text \<open>
  \<open>do_connect\<close> (lines 79-126). \<open>ATT_MIN_MTU_L2CAP\<close> is 48. \<open>bt_io\<close> is the channel
  that \<open>bt_io_connect\<close> returns, \<open>None\<close> for \<open>NULL\<close>; a channel is named by a number.
\<close>

type_synonym chan = nat

definition do_connect :: "chan option \<Rightarrow> options \<Rightarrow> action list \<times> chan option" where
  "do_connect bt_io opts =
     (if opt_mtu opts \<noteq> 0 \<and> opt_mtu opts < 48 then
        ([G_printerr ''MTU cannot be smaller than 48''], None)
      else if opt_dst opts = None then
        ([G_printerr ''Remote Bluetooth address required''], None)
      else ([], bt_io))"

text \<open>The decoders and the encoder of att.c that the callbacks use.\<close>

record codec =
  dec_read_by_grp_resp :: "u8 list \<Rightarrow> att_data_list option"
  dec_read_by_type_resp :: "u8 list \<Rightarrow> att_data_list option"
  dec_read_resp :: "u8 list \<Rightarrow> u8 list option"
  dec_find_info_resp :: "u8 list \<Rightarrow> (att_data_list \<times> u8) option"
  enc_confirmation :: "u8 list"

text \<open>
  Modelled from the spec: GLib's main loop and GAttrib's delivery of PDUs, which are
  not among the sources. The spec's section 5 has one event source whose events are
  processed to completion one after the other, and section 4.1 routes a response or an
  error to the continuation of the outstanding request and an unsolicited PDU to the
  handler registered for its opcode. The completion of the connection attempt that
  \<open>bt_io_connect\<close> started (the spec's \<open>connect\<close> of section 6, yielding a channel or a
  connect error) is an event of the same loop, reported to \<open>connect_cb\<close>. The state
  records which response callback is
  installed, the opcodes registered by \<open>listen_start\<close>, whether \<open>g_main_loop_quit\<close>
  has been called, and everything done so far.
\<close>

datatype pending =
    P_primary
  | P_char characteristic_data
  | P_read
  | P_desc
  | P_write

datatype event =
    Ev_response u8 "u8 list"
  | Ev_unsolicited "u8 list"
  | Ev_written
  | Ev_connect "string option"

record loop_state =
  ls_pending :: "pending option"
  ls_registered :: "u8 list"
  ls_quit :: bool
  ls_trace :: "action list"

text \<open>
  Modelled from the spec: the effect of one action on the loop. A request with a
  callback becomes the outstanding one, \<open>g_attrib_register\<close> adds an opcode,
  \<open>g_main_loop_quit\<close> sets the flag; everything is appended to the trace.
\<close>

fun perform :: "loop_state \<Rightarrow> action \<Rightarrow> loop_state" where
  "perform st (Gatt_discover_primary s e) =
     st \<lparr> ls_pending := Some P_primary, ls_trace := ls_trace st @ [Gatt_discover_primary s e] \<rparr>"
| "perform st (Gatt_discover_char s e cd) =
     st \<lparr> ls_pending := Some (P_char cd), ls_trace := ls_trace st @ [Gatt_discover_char s e cd] \<rparr>"
| "perform st (Gatt_find_info s e) =
     st \<lparr> ls_pending := Some P_desc, ls_trace := ls_trace st @ [Gatt_find_info s e] \<rparr>"
| "perform st (Gatt_read_char h) =
     st \<lparr> ls_pending := Some P_read, ls_trace := ls_trace st @ [Gatt_read_char h] \<rparr>"
| "perform st (Gatt_write_cmd h v) =
     st \<lparr> ls_pending := Some P_write, ls_trace := ls_trace st @ [Gatt_write_cmd h v] \<rparr>"
| "perform st (G_attrib_register opc) =
     st \<lparr> ls_registered := ls_registered st @ [opc],
          ls_trace := ls_trace st @ [G_attrib_register opc] \<rparr>"
| "perform st G_main_loop_quit =
     st \<lparr> ls_quit := True, ls_trace := ls_trace st @ [G_main_loop_quit] \<rparr>"
| "perform st a = st \<lparr> ls_trace := ls_trace st @ [a] \<rparr>"

definition perform_all :: "loop_state \<Rightarrow> action list \<Rightarrow> loop_state" where
  "perform_all st acts = foldl perform st acts"

text \<open>
  Modelled from the spec: which callback of gatttool.c an event invokes, in the state
  before the event, and what that callback does.
\<close>

fun deliver :: "codec \<Rightarrow> options \<Rightarrow> loop_state \<Rightarrow> event \<Rightarrow> action list" where
  "deliver c opts st (Ev_response status pdu) =
     (case ls_pending st of
        Some P_primary \<Rightarrow> primary_cb (dec_read_by_grp_resp c) opts status pdu
      | Some (P_char cd) \<Rightarrow> char_discovered_cb (dec_read_by_type_resp c) opts cd status pdu
      | Some P_read \<Rightarrow> char_read_cb (dec_read_resp c) opts status pdu
      | Some P_desc \<Rightarrow> char_desc_cb (dec_find_info_resp c) opts status pdu
      | _ \<Rightarrow> [])"
| "deliver c opts st (Ev_unsolicited pdu) =
     (if pdu \<noteq> [] \<and> hd pdu \<in> set (ls_registered st)
      then events_handler (enc_confirmation c) pdu else [])"
| "deliver c opts st Ev_written =
     (if ls_pending st = Some P_write then mainloop_quit else [])"
| "deliver c opts st (Ev_connect err) = connect_cb err"

text \<open>
  Modelled from the spec: a response and the completion of a command consume the
  outstanding request; an unsolicited PDU and the completion of the connection
  attempt leave it alone.
\<close>

fun consume :: "loop_state \<Rightarrow> event \<Rightarrow> loop_state" where
  "consume st (Ev_unsolicited pdu) = st"
| "consume st (Ev_connect err) = st"
| "consume st ev = st \<lparr> ls_pending := None \<rparr>"

text \<open>Modelled from the spec: one event, processed to completion.\<close>

definition step :: "codec \<Rightarrow> options \<Rightarrow> loop_state \<Rightarrow> event \<Rightarrow> loop_state" where
  "step c opts st ev = perform_all (consume st ev) (deliver c opts st ev)"

text \<open>
  Modelled from the spec: \<open>g_main_loop_run\<close> on the events that arrive: it stops dispatching once
  \<open>g_main_loop_quit\<close> has been called. When the events run out with \<open>ls_quit\<close> still
  false, the loop is waiting and has not returned.
\<close>

fun g_main_loop_run :: "codec \<Rightarrow> options \<Rightarrow> loop_state \<Rightarrow> event list \<Rightarrow> loop_state" where
  "g_main_loop_run c opts st [] = st"
| "g_main_loop_run c opts st (ev # evs) =
     (if ls_quit st then st else g_main_loop_run c opts (step c opts st ev) evs)"


text \<open>
  \<open>main\<close> (lines 512-601). \<open>gerr\<close> is the error message of \<open>g_option_context_parse\<close>
  when it returns \<open>FALSE\<close>, and \<open>opts\<close> are the option globals after the call. The
  result is what the program did and the value it returns, \<open>None\<close> while
  \<open>g_main_loop_run\<close> has not returned. The idle sources run first: \<open>listen_start\<close>
  when \<open>opt_listen\<close> is set, then the selected callback.
\<close>

definition main ::
  "codec \<Rightarrow> string option \<Rightarrow> options \<Rightarrow> chan option \<Rightarrow> event list \<Rightarrow>
   action list \<times> int option" where
  "main c gerr opts bt_io evs =
     (let parsed = (case gerr of None \<Rightarrow> [] | Some m \<Rightarrow> [G_printerr m])
      in case select_callback opts of
           None \<Rightarrow> (parsed @ [G_print_help], Some 1)
         | Some cb \<Rightarrow>
             (case snd (do_connect bt_io opts) of
                None \<Rightarrow> (parsed @ fst (do_connect bt_io opts), Some 1)
              | Some ch \<Rightarrow>
                  (let st0 = \<lparr> ls_pending = None, ls_registered = [], ls_quit = False,
                               ls_trace = parsed \<rparr>;
                       st1 = perform_all st0
                               ((if opt_listen opts then listen_start else []) @
                                run_callback cb opts);
                       st2 = g_main_loop_run c opts st1 evs
                   in (ls_trace st2, if ls_quit st2 then Some 0 else None))))"

section \<open>The transaction dispatcher of the specification\<close>

text \<open>
  Modelled from the spec: the Transaction Dispatcher of section 4.1, whose code
  (\<open>g_attrib_send\<close> and the receive path of gattrib.c) is not among the sources.
  \<open>send\<close> fails with \<open>BusyError\<close> if a PendingRequest already exists; otherwise it
  transmits the PDU and installs the PendingRequest. On receipt of a response or an
  error the PendingRequest is cleared and its continuation invoked with the outcome.
  The state keeps the PDUs transmitted and the results of the continuations invoked, in
  order.
\<close>

datatype outcome = Response "u8 list" | ProtocolError u8 | TransportClosed

datatype send_error = BusyError

record 'r pending_request =
  pr_opcode :: u8
  pr_body :: "u8 list"
  pr_continuation :: "outcome \<Rightarrow> 'r"

record 'r dispatcher =
  pending_slot :: "'r pending_request option"
  transmitted :: "u8 list list"
  invoked :: "'r list"

text \<open>
  Modelled from the spec: \<open>send(opcode, body, continuation)\<close>. The first component
  of the result is the failure or success reported to the caller, the second the
  dispatcher afterwards.
\<close>

definition send ::
  "u8 \<Rightarrow> u8 list \<Rightarrow> (outcome \<Rightarrow> 'r) \<Rightarrow> 'r dispatcher \<Rightarrow>
   (send_error + unit) \<times> 'r dispatcher" where
  "send opcode body k d =
     (case pending_slot d of
        Some p \<Rightarrow> (Inl BusyError, d)
      | None \<Rightarrow>
          (Inr (),
           d \<lparr> pending_slot :=
                  Some \<lparr> pr_opcode = opcode, pr_body = body, pr_continuation = k \<rparr>,
                transmitted := transmitted d @ [opcode # body] \<rparr>))"

text \<open>
  Modelled from the spec: the receipt of the response or error that matches the
  outstanding request. Without an outstanding request the PDU is discarded.
\<close>

definition on_receive :: "outcome \<Rightarrow> 'r dispatcher \<Rightarrow> 'r dispatcher" where
  "on_receive out d =
     (case pending_slot d of
        None \<Rightarrow> d
      | Some p \<Rightarrow> d \<lparr> pending_slot := None, invoked := invoked d @ [pr_continuation p out] \<rparr>)"

section \<open>Properties\<close>

subsection \<open>Helper facts\<close>

lemma requests_append: "requests (xs @ ys) = requests xs @ requests ys"
  by (simp add: requests_def)

lemma primary_loop_requests: "requests (fst (primary_loop l vs e)) = []"
  by (induction vs arbitrary: e) (simp_all add: requests_def Let_def primary_entry_def)

lemma primary_loop_end:
  "vs \<noteq> [] \<Longrightarrow> snd (primary_loop l vs e) = att_get_u16 (drop 2 (last vs))"
  by (induction vs arbitrary: e) (auto simp: Let_def)

lemma u16_below_max: "(e::u16) \<noteq> 0xFFFF \<Longrightarrow> unat e < 65535"
proof -
  assume a: "e \<noteq> 0xFFFF"
  have b: "unat e < 65536"
    using unsigned_less [of e, where ?'a = nat] by simp
  have "unat e \<noteq> 65535"
  proof
    assume "unat e = 65535"
    then have "word_of_nat (unat e) = (word_of_nat 65535 :: u16)" by simp
    then have "e = 0xFFFF" by simp
    with a show False by simp
  qed
  with b show ?thesis by linarith
qed

lemma u16_succ: "(e::u16) \<noteq> 0xFFFF \<Longrightarrow> unat (e + 1) = unat e + 1"
  using u16_below_max [of e] by (simp add: unat_word_ariths)

lemma loop_done_requests: "requests (loop_done opts) = []"
  by (simp add: loop_done_def requests_def)

lemma attr_data_from_string_length: "length (attr_data_from_string str) = length str div 2"
  by (simp add: attr_data_from_string_def)


lemma perform_all_append: "perform_all st (xs @ ys) = perform_all (perform_all st xs) ys"
  by (simp add: perform_all_def)


text \<open>
  Once no request is outstanding and the loop has not been asked to quit, no event
  makes it quit: a response or a command completion finds no callback, and
  \<open>events_handler\<close> neither quits nor issues a request with a callback.
\<close>

lemma events_handler_idle:
  "ls_pending (perform_all st (events_handler cnf pdu)) = ls_pending st
   \<and> ls_quit (perform_all st (events_handler cnf pdu)) = ls_quit st"
  by (simp add: events_handler_def perform_all_def Let_def)

lemma step_idle:
  assumes "ls_pending st = None" and "\<not> ls_quit st"
  shows "ls_pending (step c opts st ev) = None \<and> \<not> ls_quit (step c opts st ev)"
proof (cases ev)
  case (Ev_response s p)
  with assms show ?thesis by (simp add: step_def perform_all_def)
next
  case (Ev_unsolicited p)
  with assms show ?thesis
    by (simp add: step_def events_handler_idle) (simp add: perform_all_def)
next
  case Ev_written
  with assms show ?thesis by (simp add: step_def perform_all_def)
next
  case (Ev_connect err)
  with assms show ?thesis
    by (simp add: step_def connect_cb_def perform_all_def split: option.split)
qed

lemma g_main_loop_run_idle:
  "ls_pending st = None \<Longrightarrow> \<not> ls_quit st \<Longrightarrow> \<not> ls_quit (g_main_loop_run c opts st evs)"
proof (induction evs arbitrary: st)
  case Nil
  then show ?case by simp
next
  case (Cons ev evs)
  from step_idle [OF Cons.prems] Cons.IH [of "step c opts st ev"] Cons.prems
  show ?case by simp
qed

lemma listen_start_state:
  "ls_pending (perform_all st listen_start) = ls_pending st
   \<and> ls_quit (perform_all st listen_start) = ls_quit st"
  by (simp add: listen_start_def perform_all_def)













lemma loop_done_quits: "\<not> opt_listen opts \<Longrightarrow> G_main_loop_quit \<in> set (loop_done opts)"
  by (simp add: loop_done_def)






subsection \<open>C1: the next request of primary service discovery\<close>

text \<open>
  C1 (amended form). After a successful response that decodes to a non-empty list whose
  last entry has an end group handle below \<open>0xFFFF\<close>, \<open>primary_cb\<close> hands exactly one
  request to the GATT layer: it starts at that end group handle plus one, without
  wrap-around, and keeps the end \<open>opt_end\<close>. Nothing compares the new start with
  \<open>opt_end\<close>: the statement holds for every value of the options.
\<close>

theorem primary_cb_next_request:
  assumes "dec pdu = Some list" and "entries list \<noteq> []"
    and "att_get_u16 (drop 2 (last (entries list))) \<noteq> 0xFFFF"
  shows "requests (primary_cb dec opts 0 pdu) =
           [Gatt_discover_primary (att_get_u16 (drop 2 (last (entries list))) + 1)
              (word_of_int (opt_end opts))]
         \<and> unat (att_get_u16 (drop 2 (last (entries list))) + 1) =
           unat (att_get_u16 (drop 2 (last (entries list)))) + 1"
proof -
  have "requests (primary_cb dec opts 0 pdu) =
          [Gatt_discover_primary (snd (primary_loop (len list) (entries list) 0) + 1)
             (word_of_int (opt_end opts))]"
    using assms(1)
    by (simp add: primary_cb_def ATT_ECODE_ATTR_NOT_FOUND_def Let_def requests_append
        primary_loop_requests) (simp add: requests_def)
  then show ?thesis
    using assms(2,3) by (simp add: primary_loop_end u16_succ)
qed

text \<open>The theorem at a response with the single service \<open>[0x0001, 0x0005]\<close>.\<close>

theorem primary_cb_next_request_witness:
  "entries \<lparr> len = 6, entries = [[0x01, 0, 0x05, 0, 0x00, 0x18]] \<rparr> \<noteq> []
   \<and> att_get_u16 (drop 2 (last [[0x01, 0, 0x05, 0, 0x00, 0x18]])) \<noteq> 0xFFFF
   \<and> requests
       (primary_cb (\<lambda>_. Some \<lparr> len = 6, entries = [[0x01, 0, 0x05, 0, 0x00, 0x18]] \<rparr>)
          default_options 0 []) = [Gatt_discover_primary 0x0006 0xFFFF]"
  using primary_cb_next_request
    [of "\<lambda>_. Some \<lparr> len = 6, entries = [[0x01, 0, 0x05, 0, 0x00, 0x18]] \<rparr>" "[]"
      "\<lparr> len = 6, entries = [[0x01, 0, 0x05, 0, 0x00, 0x18]] \<rparr>" default_options]
  by (simp add: att_get_u16_def default_options_def)

text \<open>
  C1 as stated fails. With \<open>opt_end = 0x000B\<close> and a response whose last service ends
  at \<open>0x000B\<close>, the next request starts at \<open>0x000C\<close>, past the requested end. With a
  last service ending at \<open>0xFFFF\<close> a further request is issued, and it starts at
  handle 0.
\<close>

theorem primary_cb_pagination_counterexample:
  "requests
     (primary_cb (\<lambda>_. Some \<lparr> len = 6, entries = [[0x06, 0, 0x0B, 0, 0x00, 0x18]] \<rparr>)
        (default_options \<lparr> opt_end := 0x000B \<rparr>) 0 []) = [Gatt_discover_primary 0x000C 0x000B]
   \<and> (0x000B :: u16) < 0x000C
   \<and> requests
       (primary_cb (\<lambda>_. Some \<lparr> len = 6, entries = [[0x06, 0, 0xFF, 0xFF, 0x00, 0x18]] \<rparr>)
          default_options 0 []) = [Gatt_discover_primary 0x0000 0xFFFF]"
  by (simp add: primary_cb_def default_options_def primary_entry_def att_get_u16_def Let_def
      sdp_uuid16_create_def ATT_ECODE_ATTR_NOT_FOUND_def requests_def)

subsection \<open>C2: error responses during primary and characteristic discovery\<close>

text \<open>
  C2. With a non-zero status, \<open>primary_cb\<close> and \<open>char_discovered_cb\<close> hand no further
  request to the GATT layer and reach the label \<open>done\<close>, which quits the main loop
  unless the tool is listening. Attribute Not Found is reported nowhere: what has been
  printed so far stands as the result, also when nothing has been printed. Every other
  non-zero status is reported as a failure on standard error, with its code.
\<close>

theorem discovery_error_response:
  assumes "status \<noteq> 0"
  shows "requests (primary_cb dec opts status pdu) = []
       \<and> requests (char_discovered_cb dec' opts char_data status pdu) = []
       \<and> failure_reports (primary_cb dec opts status pdu) =
           (if status = ATT_ECODE_ATTR_NOT_FOUND then []
            else [G_printerr_ecode ''Discover all primary services failed'' status])
       \<and> failure_reports (char_discovered_cb dec' opts char_data status pdu) =
           (if status = ATT_ECODE_ATTR_NOT_FOUND then []
            else [G_printerr_ecode ''Discover all characteristics failed'' status])
       \<and> (G_main_loop_quit \<in> set (primary_cb dec opts status pdu) \<longleftrightarrow> \<not> opt_listen opts)
       \<and> (G_main_loop_quit \<in> set (char_discovered_cb dec' opts char_data status pdu)
            \<longleftrightarrow> \<not> opt_listen opts)"
proof -
  have p: "primary_cb dec opts status pdu =
             (if status = ATT_ECODE_ATTR_NOT_FOUND then []
              else [G_printerr_ecode ''Discover all primary services failed'' status]) @
             loop_done opts"
    using assms by (simp add: primary_cb_def)
  have c: "char_discovered_cb dec' opts char_data status pdu =
             (if status = ATT_ECODE_ATTR_NOT_FOUND then []
              else [G_printerr_ecode ''Discover all characteristics failed'' status]) @
             G_free_char_data # loop_done opts"
    using assms by (simp add: char_discovered_cb_def)
  show ?thesis
    unfolding p c
    by (simp add: requests_def failure_reports_def loop_done_def)
qed

text \<open>
  The theorem at Attribute Not Found (\<open>0x0A\<close>) and at Invalid Handle (\<open>0x01\<close>), both
  arriving on the first request.
\<close>

theorem discovery_error_response_witness:
  "(0x0A :: u8) \<noteq> 0 \<and> (0x01 :: u8) \<noteq> 0
   \<and> requests (primary_cb (\<lambda>_. None) default_options 0x0A []) = []
   \<and> failure_reports (primary_cb (\<lambda>_. None) default_options 0x0A []) = []
   \<and> failure_reports
       (char_discovered_cb (\<lambda>_. None) default_options \<lparr> cd_start = 1, cd_end = 0xFFFF \<rparr> 0x0A []) = []
   \<and> failure_reports (primary_cb (\<lambda>_. None) default_options 0x01 []) =
       [G_printerr_ecode ''Discover all primary services failed'' 0x01]
   \<and> G_main_loop_quit \<in> set (primary_cb (\<lambda>_. None) default_options 0x0A [])"
  using discovery_error_response [of "0x0A" "\<lambda>_. None" default_options "[]" "\<lambda>_. None"
      "\<lparr> cd_start = 1, cd_end = 0xFFFF \<rparr>"]
    discovery_error_response [of "0x01" "\<lambda>_. None" default_options "[]" "\<lambda>_. None"
      "\<lparr> cd_start = 1, cd_end = 0xFFFF \<rparr>"]
  by (simp add: ATT_ECODE_ATTR_NOT_FOUND_def default_options_def)

subsection \<open>C3: descriptor discovery\<close>

text \<open>
  C3 does not hold of the code. \<open>char_desc_cb\<close> never hands a request to the GATT
  layer, whatever the status and the response: the single request of
  \<open>characteristics_desc\<close> is the only one of a run. Attribute Not Found is reported
  as a failure. After a response with the one descriptor at handle \<open>0x0001\<close> in the
  window \<open>[0x0001, 0xFFFF]\<close> the callback prints it and quits the main loop.
\<close>

theorem char_desc_cb_single_request:
  "requests (char_desc_cb dec opts status pdu) = []
   \<and> char_desc_cb dec opts ATT_ECODE_ATTR_NOT_FOUND pdu =
       G_printerr_ecode ''Discover all characteristic descriptors failed''
         ATT_ECODE_ATTR_NOT_FOUND # loop_done opts
   \<and> char_desc_cb (\<lambda>_. Some (\<lparr> len = 4, entries = [[0x01, 0, 0x00, 0x28]] \<rparr>, 0x01))
       default_options 0 [] =
       [G_print_desc 0x0001 (UUID16 0x2800), Att_data_list_free, G_main_loop_quit]"
proof -
  have "requests (map (desc_entry f) vs) = []" for f vs
    by (induction vs) (simp_all add: requests_def desc_entry_def)
  then have "requests (char_desc_cb dec opts status pdu) = []"
    by (simp add: char_desc_cb_def requests_append loop_done_requests split: option.split prod.split)
       (simp add: requests_def loop_done_def)
  then show ?thesis
    by (simp add: char_desc_cb_def ATT_ECODE_ATTR_NOT_FOUND_def default_options_def
        desc_entry_def att_get_u16_def sdp_uuid16_create_def loop_done_def)
qed

subsection \<open>C4: confirmation of indications\<close>

text \<open>
  C4. When \<open>enc_confirmation\<close> produces a PDU (\<open>olen > 0\<close>), \<open>events_handler\<close> sends a
  confirmation if and only if the opcode of the event is Handle Value Indication, and
  then exactly one, as its last action, after the handle and the value of the event
  have been printed. A notification is printed and nothing is sent.
\<close>

theorem events_handler_confirmation:
  assumes "cnf \<noteq> []"
  shows "confirmations (events_handler cnf pdu) =
           (if pdu ! 0 = ATT_OP_HANDLE_IND then [G_attrib_send (cnf ! 0) cnf] else [])
       \<and> (pdu ! 0 = ATT_OP_HANDLE_IND \<longrightarrow>
            events_handler cnf pdu =
              [G_print_indication (att_get_u16 (drop 1 pdu)), G_print_bytes (drop 3 pdu),
               G_attrib_send (cnf ! 0) cnf])
       \<and> (pdu ! 0 = ATT_OP_HANDLE_NOTIFY \<longrightarrow>
            events_handler cnf pdu =
              [G_print_notification (att_get_u16 (drop 1 pdu)), G_print_bytes (drop 3 pdu)])"
  using assms
  by (simp add: events_handler_def confirmations_def Let_def ATT_OP_HANDLE_IND_def
      ATT_OP_HANDLE_NOTIFY_def)

text \<open>The theorem at an indication and at a notification for handle \<open>0x0012\<close>.\<close>

theorem events_handler_confirmation_witness:
  "[0x1E :: u8] \<noteq> []
   \<and> confirmations (events_handler [0x1E] [0x1D, 0x12, 0x00, 0x01, 0x02]) =
       [G_attrib_send 0x1E [0x1E]]
   \<and> events_handler [0x1E] [0x1D, 0x12, 0x00, 0x01, 0x02] =
       [G_print_indication 0x0012, G_print_bytes [0x01, 0x02], G_attrib_send 0x1E [0x1E]]
   \<and> confirmations (events_handler [0x1E] [0x1B, 0x12, 0x00, 0x01, 0x02]) = []"
  using events_handler_confirmation [of "[0x1E]" "[0x1D, 0x12, 0x00, 0x01, 0x02]"]
    events_handler_confirmation [of "[0x1E]" "[0x1B, 0x12, 0x00, 0x01, 0x02]"]
  by (simp add: ATT_OP_HANDLE_IND_def ATT_OP_HANDLE_NOTIFY_def att_get_u16_def
      confirmations_def)

subsection \<open>C5: a second request while one is outstanding\<close>

text \<open>
  C5, on the dispatcher of the specification. While a PendingRequest exists, \<open>send\<close>
  fails with \<open>BusyError\<close> and leaves the dispatcher as it was: nothing is transmitted
  and the PendingRequest is the same. The outcome that arrives afterwards is passed to
  the continuation of that request, and the slot is cleared.
\<close>

theorem send_while_pending:
  assumes "pending_slot d = Some p"
  shows "send opcode body k d = (Inl BusyError, d)
       \<and> transmitted (snd (send opcode body k d)) = transmitted d
       \<and> pending_slot (snd (send opcode body k d)) = Some p
       \<and> invoked (on_receive out (snd (send opcode body k d))) =
           invoked d @ [pr_continuation p out]
       \<and> pending_slot (on_receive out (snd (send opcode body k d))) = None"
  using assms by (simp add: send_def on_receive_def)

text \<open>
  The theorem after a first read request for handle \<open>0x0010\<close>: a second one for
  handle \<open>0x0012\<close> is refused, and the response goes to the first continuation.
\<close>

theorem send_while_pending_witness:
  "pending_slot (snd (send 0x0A [0x10, 0x00] (\<lambda>out. (0x10 :: u16, out))
       \<lparr> pending_slot = None, transmitted = [], invoked = [] \<rparr>)) =
     Some \<lparr> pr_opcode = 0x0A, pr_body = [0x10, 0x00], pr_continuation = (\<lambda>out. (0x10 :: u16, out)) \<rparr>
   \<and> fst (send 0x0A [0x12, 0x00] (\<lambda>out. (0x12 :: u16, out))
       (snd (send 0x0A [0x10, 0x00] (\<lambda>out. (0x10 :: u16, out))
          \<lparr> pending_slot = None, transmitted = [], invoked = [] \<rparr>))) = Inl BusyError
   \<and> transmitted (snd (send 0x0A [0x12, 0x00] (\<lambda>out. (0x12 :: u16, out))
       (snd (send 0x0A [0x10, 0x00] (\<lambda>out. (0x10 :: u16, out))
          \<lparr> pending_slot = None, transmitted = [], invoked = [] \<rparr>)))) = [[0x0A, 0x10, 0x00]]
   \<and> invoked (on_receive (Response [0x0B, 0x2A])
       (snd (send 0x0A [0x12, 0x00] (\<lambda>out. (0x12 :: u16, out))
          (snd (send 0x0A [0x10, 0x00] (\<lambda>out. (0x10 :: u16, out))
             \<lparr> pending_slot = None, transmitted = [], invoked = [] \<rparr>))))) =
     [(0x10, Response [0x0B, 0x2A])]"
  using send_while_pending
    [of "snd (send 0x0A [0x10, 0x00] (\<lambda>out. (0x10 :: u16, out))
          \<lparr> pending_slot = None, transmitted = [], invoked = [] \<rparr>)"
      "\<lparr> pr_opcode = 0x0A, pr_body = [0x10, 0x00], pr_continuation = (\<lambda>out. (0x10 :: u16, out)) \<rparr>"
      "0x0A" "[0x12, 0x00]" "\<lambda>out. (0x12 :: u16, out)" "Response [0x0B, 0x2A]"]
  by (simp add: send_def)

subsection \<open>C6: the handle window of a discovery\<close>

text \<open>
  C6 (amended form). The three entry points \<open>primary\<close>, \<open>characteristics\<close> and
  \<open>characteristics_desc\<close> do not compare \<open>opt_start\<close> with \<open>opt_end\<close>. For every
  value of the options each hands exactly one request to the GATT layer, carrying
  both values converted to \<open>uint16_t\<close>, and reports no error.
\<close>

theorem discovery_entry_no_range_check:
  "primary opts =
     [Gatt_discover_primary (word_of_int (opt_start opts)) (word_of_int (opt_end opts))]
   \<and> requests (characteristics opts) =
     [Gatt_discover_char (word_of_int (opt_start opts)) (word_of_int (opt_end opts))
        \<lparr> cd_start = word_of_int (opt_start opts), cd_end = word_of_int (opt_end opts) \<rparr>]
   \<and> requests (characteristics_desc opts) =
     [Gatt_find_info (word_of_int (opt_start opts)) (word_of_int (opt_end opts))]
   \<and> failure_reports (primary opts) = []
   \<and> failure_reports (characteristics opts) = []
   \<and> failure_reports (characteristics_desc opts) = []"
  by (simp add: primary_def characteristics_def characteristics_desc_def requests_def
      failure_reports_def)

text \<open>
  C6 as stated fails: with \<open>opt_start = 0x0005\<close> and \<open>opt_end = 0x0001\<close> each entry
  point hands its request with that window to the GATT layer.
\<close>

theorem discovery_range_counterexample:
  "(0x0001 :: u16) < 0x0005
   \<and> primary (default_options \<lparr> opt_start := 0x0005, opt_end := 0x0001 \<rparr>) =
       [Gatt_discover_primary 0x0005 0x0001]
   \<and> characteristics (default_options \<lparr> opt_start := 0x0005, opt_end := 0x0001 \<rparr>) =
       [Gatt_discover_char 0x0005 0x0001 \<lparr> cd_start = 0x0005, cd_end = 0x0001 \<rparr>]
   \<and> characteristics_desc (default_options \<lparr> opt_start := 0x0005, opt_end := 0x0001 \<rparr>) =
       [Gatt_find_info 0x0005 0x0001]"
  by (simp add: primary_def characteristics_def characteristics_desc_def default_options_def)

subsection \<open>C7: the length of a written value\<close>

text \<open>
  C7 (amended form). \<open>characteristics_write\<close> does not look at any MTU. For a handle
  above 0 and a value string of at least two characters it hands the whole decoded
  value, of half as many bytes as the string has characters, to \<open>gatt_write_cmd\<close>,
  whatever \<open>opt_mtu\<close> is.
\<close>

theorem characteristics_write_no_length_check:
  assumes "0 < opt_handle opts" and "opt_value opts = Some str" and "2 \<le> length str"
  shows "characteristics_write opts =
           [Gatt_write_cmd (word_of_int (opt_handle opts)) (attr_data_from_string str)]
       \<and> length (attr_data_from_string str) = length str div 2"
proof -
  from assms(3) have s: "str \<noteq> []" and "0 < length str div 2" by auto
  then have "length (attr_data_from_string str) \<noteq> 0"
    by (simp add: attr_data_from_string_length)
  then have v: "attr_data_from_string str \<noteq> []" by auto
  from assms(1,2) s v show ?thesis
    by (simp add: characteristics_write_def attr_data_from_string_length Let_def)
qed

text \<open>The theorem at handle \<open>0x0012\<close> and the value string \<open>01ff\<close>.\<close>

theorem characteristics_write_no_length_check_witness:
  "0 < opt_handle (default_options \<lparr> opt_handle := 0x12, opt_value := Some ''01ff'' \<rparr>)
   \<and> 2 \<le> length ''01ff''
   \<and> characteristics_write (default_options \<lparr> opt_handle := 0x12, opt_value := Some ''01ff'' \<rparr>) =
       [Gatt_write_cmd 0x0012 [0x01, 0xFF]]"
  using characteristics_write_no_length_check
    [of "default_options \<lparr> opt_handle := 0x12, opt_value := Some ''01ff'' \<rparr>" "''01ff''"]
  by (simp add: default_options_def attr_data_from_string_def strtol16_def isspace_def
      hex_digit_def upt_rec [of 0] upt_rec [of 1])

text \<open>
  C7 as stated fails: with an MTU of 48 and a value of 46 bytes, which is the MTU
  minus 2, the write command is handed to the GATT layer with all 46 bytes.
\<close>

theorem characteristics_write_mtu_counterexample:
  "characteristics_write
     (default_options \<lparr> opt_mtu := 48, opt_handle := 0x12,
        opt_value := Some (concat (replicate 46 ''ab'')) \<rparr>) =
     [Gatt_write_cmd 0x0012 (replicate 46 0xAB)]
   \<and> length (replicate 46 (0xAB :: u8)) = 48 - 2"
  by code_simp

subsection \<open>C8: a response that does not decode\<close>

text \<open>
  What each response callback does when its decoder rejects a successful response.
  Three of the four reach the label \<open>done\<close>; \<open>char_discovered_cb\<close> returns at once.
\<close>

lemma decode_failure_paths:
  "char_discovered_cb (\<lambda>_. None) opts char_data 0 pdu = []
   \<and> primary_cb (\<lambda>_. None) opts 0 pdu = loop_done opts
   \<and> char_read_cb (\<lambda>_. None) opts 0 pdu = G_printerr ''Protocol error'' # loop_done opts
   \<and> char_desc_cb (\<lambda>_. None) opts 0 pdu = loop_done opts"
  by (simp add: char_discovered_cb_def primary_cb_def char_read_cb_def char_desc_cb_def
      ATT_ECODE_ATTR_NOT_FOUND_def)

text \<open>
  C8 does not hold of the code. In a characteristic discovery, when the first response
  has status 0 and \<open>dec_read_by_type_resp\<close> rejects it, \<open>char_discovered_cb\<close> does
  nothing: it neither frees \<open>char_data\<close> nor quits the main loop. No request is
  outstanding from then on, so \<open>g_main_loop_run\<close> does not return, whatever events
  follow, and \<open>main\<close> yields no exit code.
\<close>

theorem char_discovery_decode_failure_hangs:
  assumes "select_callback opts = Some Cb_characteristics"
    and "snd (do_connect bt_io opts) \<noteq> None"
    and "dec_read_by_type_resp c pdu = None"
  shows "char_discovered_cb (dec_read_by_type_resp c) opts char_data 0 pdu = []
       \<and> snd (main c gerr opts bt_io (Ev_response 0 pdu # evs)) = None"
proof -
  have cb: "char_discovered_cb (dec_read_by_type_resp c) opts cd 0 pdu = []" for cd
    using assms(3) by (simp add: char_discovered_cb_def ATT_ECODE_ATTR_NOT_FOUND_def)
  from assms(2) obtain x where x: "snd (do_connect bt_io opts) = Some x" by auto
  define st0 where "st0 = \<lparr> ls_pending = None, ls_registered = [], ls_quit = False,
      ls_trace = (case gerr of None \<Rightarrow> [] | Some m \<Rightarrow> [G_printerr m]) \<rparr>"
  define st1 where "st1 = perform_all st0
      ((if opt_listen opts then listen_start else []) @ characteristics opts)"
  have q0: "\<not> ls_quit (perform_all st0 (if opt_listen opts then listen_start else []))"
    using listen_start_state [of st0] by (simp add: st0_def perform_all_def)
  have q1: "\<not> ls_quit st1" and p1: "\<exists>cd. ls_pending st1 = Some (P_char cd)"
    using q0 by (simp_all add: st1_def perform_all_append characteristics_def perform_all_def)
  from p1 obtain cd where cd: "ls_pending st1 = Some (P_char cd)" by auto
  have s: "step c opts st1 (Ev_response 0 pdu) = st1 \<lparr> ls_pending := None \<rparr>"
    by (simp add: step_def cd cb perform_all_def)
  have "\<not> ls_quit (g_main_loop_run c opts (st1 \<lparr> ls_pending := None \<rparr>) evs)"
    using q1 by (intro g_main_loop_run_idle) simp_all
  then have "\<not> ls_quit (g_main_loop_run c opts st1 (Ev_response 0 pdu # evs))"
    using q1 s by simp
  then have "snd (main c gerr opts bt_io (Ev_response 0 pdu # evs)) = None"
    using assms(1) x unfolding main_def st1_def st0_def Let_def by simp
  with cb show ?thesis by simp
qed

text \<open>
  The theorem at a codec that rejects every read-by-type response, followed by an
  Attribute Not Found error and a command completion.
\<close>

theorem char_discovery_decode_failure_hangs_witness:
  "select_callback
     (default_options \<lparr> opt_characteristics := True, opt_dst := Some ''00:11:22:33:44:55'' \<rparr>) =
     Some Cb_characteristics
   \<and> main \<lparr> dec_read_by_grp_resp = (\<lambda>_. None), dec_read_by_type_resp = (\<lambda>_. None),
            dec_read_resp = (\<lambda>_. None), dec_find_info_resp = (\<lambda>_. None),
            enc_confirmation = [0x1E] \<rparr>
       None
       (default_options \<lparr> opt_characteristics := True, opt_dst := Some ''00:11:22:33:44:55'' \<rparr>)
       (Some 0) [Ev_response 0 [0x09], Ev_response 0x0A [], Ev_written] =
     ([Gatt_discover_char 0x0001 0xFFFF \<lparr> cd_start = 0x0001, cd_end = 0xFFFF \<rparr>], None)"
  using char_discovery_decode_failure_hangs
    [of "default_options \<lparr> opt_characteristics := True, opt_dst := Some ''00:11:22:33:44:55'' \<rparr>"
      "Some 0"
      "\<lparr> dec_read_by_grp_resp = (\<lambda>_. None), dec_read_by_type_resp = (\<lambda>_. None),
         dec_read_resp = (\<lambda>_. None), dec_find_info_resp = (\<lambda>_. None),
         enc_confirmation = [0x1E] \<rparr>"
      "[0x09]" "\<lparr> cd_start = 0x0001, cd_end = 0xFFFF \<rparr>" None
      "[Ev_response 0x0A [], Ev_written]"]
  by (simp add: char_discovered_cb_def ATT_ECODE_ATTR_NOT_FOUND_def main_def
      default_options_def select_callback_def do_connect_def characteristics_def
      perform_all_def step_def Let_def)

subsection \<open>C9: the exit code\<close>




subsection \<open>C10: reads and writes need a handle above 0\<close>

text \<open>
  C10. With a handle option of 0 or less, which includes the unset default \<open>-1\<close>,
  \<open>characteristics_read\<close> and \<open>characteristics_write\<close> both print the message
  \<open>A valid handle is required\<close>, quit the main loop and hand no request to the GATT
  layer.
\<close>

theorem handle_required:
  assumes "opt_handle opts \<le> 0"
  shows "characteristics_read opts = [G_printerr ''A valid handle is required'', G_main_loop_quit]
       \<and> characteristics_write opts =
           [G_printerr ''A valid handle is required'', G_main_loop_quit]
       \<and> requests (characteristics_read opts) = []
       \<and> requests (characteristics_write opts) = []"
  using assms by (simp add: characteristics_read_def characteristics_write_def requests_def)

text \<open>The theorem at the unset handle, for the read, and at handle 0, for the write.\<close>

theorem handle_required_witness:
  "opt_handle default_options \<le> 0
   \<and> opt_handle (default_options \<lparr> opt_handle := 0x0000, opt_value := Some ''01'' \<rparr>) \<le> 0
   \<and> characteristics_read default_options =
       [G_printerr ''A valid handle is required'', G_main_loop_quit]
   \<and> characteristics_write (default_options \<lparr> opt_handle := 0x0000, opt_value := Some ''01'' \<rparr>) =
       [G_printerr ''A valid handle is required'', G_main_loop_quit]"
  using handle_required [of default_options]
    handle_required [of "default_options \<lparr> opt_handle := 0x0000, opt_value := Some ''01'' \<rparr>"]
  by (simp add: default_options_def)

end
